theory Spec2Isabelle
  imports
    Complex_Main
    "HOL-Library.Multiset"
    "HOL-Library.Char_ord"
    "HOL-Library.List_Lexorder"
    "HOL-Library.Product_Lexorder"
begin

section \<open>Strings and the normaliser\<close>

text \<open>
  A Python \<open>str\<close> is modelled by \<^typ>\<open>string\<close>, one \<^typ>\<open>char\<close> per code point, so
  the model covers the code points below 256. On these \<open>str.lower\<close> changes exactly
  \<open>A\<close>..\<open>Z\<close> and the Latin-1 capitals 192..222 (without the multiplication sign 215),
  each to the code point 32 above it. Strings are ordered as Python orders them:
  lexicographically by code point, a proper prefix first.
\<close>

definition lower_char :: "char \<Rightarrow> char" where
  "lower_char c =
     (let n = (of_char c :: nat)
      in if (65 \<le> n \<and> n \<le> 90) \<or> (192 \<le> n \<and> n \<le> 222 \<and> n \<noteq> 215)
         then char_of (n + 32) else c)"

definition str_lower :: "string \<Rightarrow> string" where
  "str_lower s = map lower_char s"

text \<open>
  \<open>str.upper\<close> is only ever applied to normalised keys (\<open>base.upper()\<close>,
  \<open>quote.upper()\<close>), whose characters are in \<open>[a-z0-9]\<close>: there it changes \<open>a\<close>..\<open>z\<close>.
\<close>

definition upper_char :: "char \<Rightarrow> char" where
  "upper_char c =
     (let n = (of_char c :: nat)
      in if 97 \<le> n \<and> n \<le> 122 then char_of (n - 32) else c)"

definition str_upper :: "string \<Rightarrow> string" where
  "str_upper s = map upper_char s"

text \<open>The character class \<open>[a-z0-9]\<close> of the regular expression in \<open>nrm\<close>.\<close>

definition is_key_char :: "char \<Rightarrow> bool" where
  "is_key_char c =
     (let n = (of_char c :: nat)
      in (97 \<le> n \<and> n \<le> 122) \<or> (48 \<le> n \<and> n \<le> 57))"

text \<open>\<open>nrm(s) = re.sub(r"[^a-z0-9]", "", s.lower())\<close>\<close>

definition nrm :: "string \<Rightarrow> string" where
  "nrm s = filter is_key_char (str_lower s)"

text \<open>\<open>sep.join(xs)\<close>\<close>

fun join :: "string \<Rightarrow> string list \<Rightarrow> string" where
  "join sep [] = []"
| "join sep [x] = x"
| "join sep (x # y # ys) = x @ sep @ join sep (y # ys)"

section \<open>The static tables\<close>

definition COMMON_IDS :: "string \<rightharpoonup> string" where
  "COMMON_IDS = map_of
     [(''btc'', ''bitcoin''), (''xbt'', ''bitcoin''), (''eth'', ''ethereum''), (''sol'', ''solana''),
      (''ada'', ''cardano''), (''xrp'', ''ripple''), (''doge'', ''dogecoin''), (''dot'', ''polkadot''),
      (''matic'', ''matic-network''), (''avax'', ''avalanche-2''), (''ltc'', ''litecoin''),
      (''bch'', ''bitcoin-cash''), (''atom'', ''cosmos''), (''link'', ''chainlink''), (''uni'', ''uniswap''),
      (''arb'', ''arbitrum''), (''op'', ''optimism''), (''ton'', ''the-open-network''), (''xlm'', ''stellar''),
      (''etc'', ''ethereum-classic''), (''near'', ''near''), (''apt'', ''aptos''), (''ftm'', ''fantom''),
      (''fil'', ''filecoin''), (''hnt'', ''helium'')]"

definition FIAT_WHITELIST :: "string set" where
  "FIAT_WHITELIST = set
     [''usd'', ''eur'', ''gbp'', ''jpy'', ''cny'', ''aud'', ''cad'', ''chf'', ''inr'', ''brl'', ''mxn'', ''sek'', ''nok'',
      ''dkk'', ''pln'', ''zar'', ''hkd'', ''sgd'', ''thb'', ''twd'', ''idr'', ''php'', ''try'', ''ils'', ''nzd'', ''rub'',
      ''aed'', ''sar'', ''ngn'', ''ars'', ''clp'', ''czk'', ''ron'']"

section \<open>Numbers and their rendering\<close>

text \<open>
  A finite Python \<open>float\<close> is modelled by the rational number it denotes (\<^typ>\<open>rat\<close>);
  the infinities, NaN and the sign of zero are outside the model, and \<open>*\<close> and \<open>/\<close> are the
  exact operations (the rounding of a product or quotient to the nearest double is not
  modelled). The format specification \<open>.Nf\<close> renders the exact value of its argument,
  correctly rounded to \<open>N\<close> decimals with ties going to the even neighbour, and prints the
  sign of the argument; \<open>,\<close> groups the integer digits in threes.
\<close>

definition round_half_even :: "rat \<Rightarrow> int" where
  "round_half_even y =
     (let f = \<lfloor>y\<rfloor>; r = y - of_int f
      in if r < 1 / 2 then f else if 1 / 2 < r then f + 1 else if even f then f else f + 1)"

definition digit_char :: "int \<Rightarrow> char" where
  "digit_char n = char_of (48 + n)"

text \<open>The decimal digits of a non-negative integer, most significant first.\<close>

function dec_digits :: "int \<Rightarrow> string" where
  "dec_digits n =
     (if n < 10 then [digit_char n] else dec_digits (n div 10) @ [digit_char (n mod 10)])"
  by pat_completeness auto
termination
  by (relation "measure nat") auto

declare dec_digits.simps [simp del]

definition zero_pad :: "nat \<Rightarrow> string \<Rightarrow> string" where
  "zero_pad d s = replicate (d - length s) (CHR ''0'') @ s"

fun commas_rev :: "string \<Rightarrow> string" where
  "commas_rev (a # b # c # d # rest) = a # b # c # CHR '','' # commas_rev (d # rest)"
| "commas_rev s = s"

definition thousands :: "string \<Rightarrow> string" where
  "thousands s = rev (commas_rev (rev s))"

text \<open>\<open>f"{x:,.Nf}"\<close> (\<open>grouping\<close>) and \<open>f"{x:.Nf}"\<close>, for \<open>N > 0\<close>.\<close>

definition format_f :: "bool \<Rightarrow> nat \<Rightarrow> rat \<Rightarrow> string" where
  "format_f grouping prec x =
     (let n = round_half_even (\<bar>x\<bar> * 10 ^ prec);
          ip = dec_digits (n div 10 ^ prec);
          fp = zero_pad prec (dec_digits (n mod 10 ^ prec))
      in (if x < 0 then ''-'' else []) @ (if grouping then thousands ip else ip) @ ''.'' @ fp)"

text \<open>\<open>s.rstrip(c)\<close> for a one-character argument.\<close>

definition rstrip :: "char \<Rightarrow> string \<Rightarrow> string" where
  "rstrip c s = rev (dropWhile (\<lambda>x. x = c) (rev s))"

text \<open>
  The float literal \<open>0.01\<close> denotes the double nearest to one hundredth,
  \<open>5764607523034235 / 2 ^ 59\<close>.
\<close>

definition float_0_01 :: rat where
  "float_0_01 = 5764607523034235 / 576460752303423488"

definition fmt :: "rat \<Rightarrow> string \<Rightarrow> string" where
  "fmt x quote =
     (let q = nrm quote
      in if q \<in> FIAT_WHITELIST then
           (if 1 \<le> x then format_f True 2 x
            else if float_0_01 \<le> x then format_f True 4 x
            else format_f False 8 x)
         else
           (if 1 \<le> x then rstrip (CHR ''.'') (rstrip (CHR ''0'') (format_f False 6 x))
            else rstrip (CHR ''.'') (rstrip (CHR ''0'') (format_f False 10 x))))"

section \<open>Errors\<close>

datatype py_error =
    ClientError
  | RuntimeError nat string
  | KeyError
  | ZeroDivisionError

text \<open>
  \<open>ClientError\<close> stands for whatever \<open>session.get\<close> raises when the transport fails
  (connection error, timeout); \<open>RuntimeError status body\<close> is
  \<open>RuntimeError(f"HTTP {resp.status}: {text[:200]}")\<close> with the status and the truncated
  body kept apart.
\<close>

section \<open>The two caches\<close>

text \<open>
  Modelled from the spec: \<open>symbol_cache\<close> and \<open>price_cache\<close> are instances of
  \<open>cachetools.TTLCache\<close>, a library class that \<open>bot.py\<close> imports and whose code is not
  among the sources. The spec describes it as a time-bounded key-value store: an entry
  expires a fixed time-to-live after it was stored, and when the store is full the least
  recently used entry makes room. A cache is the list of its entries
  \<open>(key, value, expires)\<close>, least recently used first. An entry is live at time \<open>t\<close> when
  \<open>t < expires\<close>. Looking a key up moves its entry to the end of the list; storing drops
  the expired entries, then the least recently used ones while there is no room, and puts
  the entry at the end with \<open>expires = t + ttl\<close>.
\<close>

type_synonym ('k, 'v) ttl_cache = "('k \<times> 'v \<times> rat) list"

text \<open>\<open>key in cache\<close>\<close>

definition ttl_contains :: "('k, 'v) ttl_cache \<Rightarrow> 'k \<Rightarrow> rat \<Rightarrow> bool" where
  "ttl_contains c k t = (case map_of c k of None \<Rightarrow> False | Some (v, e) \<Rightarrow> t < e)"

definition move_to_end :: "'k \<Rightarrow> ('k, 'v) ttl_cache \<Rightarrow> ('k, 'v) ttl_cache" where
  "move_to_end k c =
     filter (\<lambda>x. fst x \<noteq> k) c @ (case map_of c k of None \<Rightarrow> [] | Some ve \<Rightarrow> [(k, ve)])"

text \<open>\<open>cache[key]\<close>: the value, or \<open>KeyError\<close> for a key that is absent or expired.\<close>

definition ttl_getitem ::
    "('k, 'v) ttl_cache \<Rightarrow> 'k \<Rightarrow> rat \<Rightarrow> (py_error + 'v) \<times> ('k, 'v) ttl_cache" where
  "ttl_getitem c k t =
     (case map_of c k of
        None \<Rightarrow> (Inl KeyError, c)
      | Some (v, e) \<Rightarrow> (if t < e then Inr v else Inl KeyError, move_to_end k c))"

definition ttl_expire :: "rat \<Rightarrow> ('k, 'v) ttl_cache \<Rightarrow> ('k, 'v) ttl_cache" where
  "ttl_expire t c = filter (\<lambda>(k, v, e). t < e) c"

text \<open>\<open>cache[key] = value\<close>, for a cache of capacity \<open>maxsize > 0\<close>.\<close>

definition ttl_setitem ::
    "nat \<Rightarrow> rat \<Rightarrow> ('k, 'v) ttl_cache \<Rightarrow> 'k \<Rightarrow> 'v \<Rightarrow> rat \<Rightarrow> ('k, 'v) ttl_cache" where
  "ttl_setitem maxsize ttl c k v t =
     (let c1 = ttl_expire t c;
          c2 = (if k \<in> set (map fst c1) then c1 else drop (length c1 + 1 - maxsize) c1)
      in filter (\<lambda>x. fst x \<noteq> k) c2 @ [(k, v, t + ttl)])"

section \<open>The process state and the remote source\<close>

text \<open>
  A coin record of \<open>/coins/list\<close> is a dictionary with string values; the price document
  of \<open>/simple/price\<close> maps an asset id to a dictionary from currency code to price.
\<close>

type_synonym coin = "string \<rightharpoonup> string"
type_synonym prices = "string \<rightharpoonup> (string \<rightharpoonup> rat)"

text \<open>\<open>d.get(key, default)\<close>\<close>

definition dict_get :: "('k \<rightharpoonup> 'v) \<Rightarrow> 'k \<Rightarrow> 'v \<Rightarrow> 'v" where
  "dict_get d k dflt = (case d k of None \<Rightarrow> dflt | Some v \<Rightarrow> v)"

text \<open>\<open>prices.get(id, {}).get(currency)\<close>\<close>

definition price_of :: "prices \<Rightarrow> string \<Rightarrow> string \<Rightarrow> rat option" where
  "price_of ps i cur = dict_get ps i Map.empty cur"

text \<open>
  The requests the bot sends: \<open>GET /coins/list?include_platform=false\<close>, and
  \<open>GET /simple/price\<close> with the parameters \<open>ids\<close> and \<open>vs_currencies\<close>
  (\<open>precision=full\<close>).
\<close>

datatype request = Coins_list | Simple_price string string

text \<open>
  What the remote source does with one request: the transport fails, or a response comes
  back with its status, its text and its JSON document.
\<close>

datatype 'a http = Transport_failure | Response nat string 'a

text \<open>
  The remote source is a parameter of the model. Its answer may change from one request
  to the next, so it is indexed by the number of requests sent before; \<open>duration\<close> is
  the time the request takes.
\<close>

record remote =
  coins_list :: "nat \<Rightarrow> coin list http"
  simple_price :: "nat \<Rightarrow> string \<Rightarrow> string \<Rightarrow> prices http"
  duration :: "nat \<Rightarrow> rat"

text \<open>
  The state of the process: the two module-level caches, the monotonic clock that the
  caches read, and the log of the requests sent so far. The clock moves while a request is
  awaited and between messages, not between two statements of one function.
\<close>

record world =
  symbol_cache :: "(string, string option) ttl_cache"
  price_cache :: "(string, prices) ttl_cache"
  now :: rat
  requests :: "request list"

text \<open>
  \<open>fetch_json\<close>: the request is sent (logged, and the clock moves); a transport failure
  or a status other than 200 raises, otherwise the JSON document is returned.
\<close>

definition fetch_json ::
    "'a http \<Rightarrow> rat \<Rightarrow> request \<Rightarrow> world \<Rightarrow> (py_error + 'a) \<times> world" where
  "fetch_json answer d req w =
     (let w' = w\<lparr>now := now w + d, requests := requests w @ [req]\<rparr>
      in case answer of
           Transport_failure \<Rightarrow> (Inl ClientError, w')
         | Response status body doc \<Rightarrow>
             if status \<noteq> 200 then (Inl (RuntimeError status (take 200 body)), w')
             else (Inr doc, w'))"

text \<open>
  A remote call fails when the transport fails or the status is not 200; \<open>raised\<close> is
  the exception \<open>fetch_json\<close> then raises.
\<close>

definition failed :: "'a http \<Rightarrow> bool" where
  "failed a = (case a of Transport_failure \<Rightarrow> True | Response status body doc \<Rightarrow> status \<noteq> 200)"

definition raised :: "'a http \<Rightarrow> py_error" where
  "raised a =
     (case a of
        Transport_failure \<Rightarrow> ClientError
      | Response status body doc \<Rightarrow> RuntimeError status (take 200 body))"

section \<open>Symbol resolution\<close>

text \<open>The sort key \<open>(len(c.get("name","")), c.get("id",""))\<close>.\<close>

definition sort_key_of :: "coin \<Rightarrow> nat \<times> string" where
  "sort_key_of c = (length (dict_get c ''name'' []), dict_get c ''id'' [])"

text \<open>
  Lines 58 to 60 of \<open>symbol_to_id\<close>: the records whose normalised symbol is the key, and
  when there is none the records whose normalised name is the key.
\<close>

definition matches_of :: "string \<Rightarrow> coin list \<Rightarrow> coin list" where
  "matches_of key coins =
     (let matches = filter (\<lambda>c. nrm (dict_get c ''symbol'' []) = key) coins
      in if matches = [] then filter (\<lambda>c. nrm (dict_get c ''name'' []) = key) coins
         else matches)"

text \<open>
  Lines 61 to 64: the first record of the stable sort, and its \<open>"id"\<close> entry
  (\<open>matches[0]["id"]\<close> raises \<open>KeyError\<close> when the record has none).
\<close>

definition choose_id :: "string \<Rightarrow> coin list \<Rightarrow> py_error + string option" where
  "choose_id key coins =
     (case sort_key sort_key_of (matches_of key coins) of
        [] \<Rightarrow> Inr None
      | c # _ \<Rightarrow> (case c ''id'' of None \<Rightarrow> Inl KeyError | Some i \<Rightarrow> Inr (Some i)))"

text \<open>
  The selection rule in the words of the specification: the result is the \<open>"id"\<close> entry
  of a candidate whose name is shortest and, among those, whose id is lexicographically
  smallest.
\<close>

definition shortest_name_then_smallest_id :: "coin list \<Rightarrow> py_error + string option \<Rightarrow> bool" where
  "shortest_name_then_smallest_id candidates res =
     (\<exists>c \<in> set candidates.
        (\<forall>c' \<in> set candidates.
           length (dict_get c ''name'' []) < length (dict_get c' ''name'' []) \<or>
           (length (dict_get c ''name'' []) = length (dict_get c' ''name'' []) \<and>
            dict_get c ''id'' [] \<le> dict_get c' ''id'' [])) \<and>
        res = (case c ''id'' of None \<Rightarrow> Inl KeyError | Some i \<Rightarrow> Inr (Some i)))"

definition symbol_to_id ::
    "remote \<Rightarrow> string \<Rightarrow> world \<Rightarrow> (py_error + string option) \<times> world" where
  "symbol_to_id rem symbol w =
     (let key = nrm symbol
      in if key = [] then (Inr None, w)
         else case COMMON_IDS key of
           Some i \<Rightarrow> (Inr (Some i), w)
         | None \<Rightarrow>
             if ttl_contains (symbol_cache w) key (now w) then
               (case ttl_getitem (symbol_cache w) key (now w) of
                  (r, c) \<Rightarrow> (r, w\<lparr>symbol_cache := c\<rparr>))
             else
               (let n = length (requests w)
                in case fetch_json (coins_list rem n) (duration rem n) Coins_list w of
                     (Inl e, w1) \<Rightarrow> (Inl e, w1)
                   | (Inr coins, w1) \<Rightarrow>
                       (case choose_id key coins of
                          Inl e \<Rightarrow> (Inl e, w1)
                        | Inr chosen \<Rightarrow>
                            (Inr chosen,
                             w1\<lparr>symbol_cache :=
                                  ttl_setitem 5000 (60 * 60 * 12) (symbol_cache w1) key chosen (now w1)\<rparr>))))"

section \<open>Price fetching\<close>

text \<open>\<open>f"{','.join(sorted(ids))}|{','.join(sorted(vs))}"\<close>\<close>

definition cache_key :: "string list \<Rightarrow> string list \<Rightarrow> string" where
  "cache_key ids vs = join '','' (sort ids) @ ''|'' @ join '','' (sort vs)"

definition get_prices ::
    "remote \<Rightarrow> string list \<Rightarrow> string list \<Rightarrow> world \<Rightarrow> (py_error + prices) \<times> world" where
  "get_prices rem ids vs w =
     (let k = cache_key ids vs
      in if ttl_contains (price_cache w) k (now w) then
           (case ttl_getitem (price_cache w) k (now w) of
              (r, c) \<Rightarrow> (r, w\<lparr>price_cache := c\<rparr>))
         else
           (let n = length (requests w);
                p_ids = join '','' ids;
                p_vs = join '','' vs
            in case fetch_json (simple_price rem n p_ids p_vs) (duration rem n)
                      (Simple_price p_ids p_vs) w of
                 (Inl e, w1) \<Rightarrow> (Inl e, w1)
               | (Inr data, w1) \<Rightarrow>
                   (Inr data,
                    w1\<lparr>price_cache := ttl_setitem 5000 60 (price_cache w1) k data (now w1)\<rparr>)))"

section \<open>The conversion\<close>

text \<open>
  What \<open>handle_message\<close> sends back. The text of a conversion is kept by its parts: the
  amount, the two upper-cased labels, the total and the unit rate, and the two rendered
  numbers (\<open>fmt(total, quote)\<close>, \<open>fmt(rate, quote)\<close>; in the fiat branch the rate is the
  price).
\<close>

record conversion =
  amount :: rat
  base_label :: string
  total :: rat
  total_text :: string
  quote_label :: string
  rate :: rat
  rate_text :: string

datatype reply =
    Unknown_base string
  | Unknown_quote string
  | Price_unavailable
  | Converted conversion

text \<open>\<open>not p\<close> for a price read with \<open>.get\<close>: it is missing, or it is zero.\<close>

definition falsy :: "rat option \<Rightarrow> bool" where
  "falsy p = (case p of None \<Rightarrow> True | Some v \<Rightarrow> v = 0)"

text \<open>\<open>a / b\<close> on floats raises \<open>ZeroDivisionError\<close> for a zero divisor.\<close>

definition float_div :: "rat \<Rightarrow> rat \<Rightarrow> py_error + rat" where
  "float_div a b = (if b = 0 then Inl ZeroDivisionError else Inr (a / b))"

definition conversion_of :: "rat \<Rightarrow> string \<Rightarrow> string \<Rightarrow> rat \<Rightarrow> rat \<Rightarrow> conversion" where
  "conversion_of amt base quote tot r =
     \<lparr>amount = amt, base_label = str_upper base, total = tot, total_text = fmt tot quote,
      quote_label = str_upper quote, rate = r, rate_text = fmt r quote\<rparr>"

text \<open>
  \<open>handle_message\<close> from line 96 on, for a message that matched the trigger pattern:
  \<open>amt\<close> is \<open>float(m.group(1))\<close>, \<open>g2\<close> and \<open>g3\<close> are \<open>m.group(2)\<close> and \<open>m.group(3)\<close>.
\<close>

definition handle_message ::
    "remote \<Rightarrow> rat \<Rightarrow> string \<Rightarrow> string \<Rightarrow> world \<Rightarrow> (py_error + reply) \<times> world" where
  "handle_message rem amt g2 g3 w =
     (let base = nrm g2;
          quote = nrm g3;
          quote_is_fiat = (quote \<in> FIAT_WHITELIST)
      in case symbol_to_id rem base w of
           (Inl e, w1) \<Rightarrow> (Inl e, w1)
         | (Inr base_id, w1) \<Rightarrow>
             if base_id = None \<or> base_id = Some [] then (Inr (Unknown_base g2), w1)
             else if quote_is_fiat then
               (case get_prices rem [the base_id] [quote] w1 of
                  (Inl e, w2) \<Rightarrow> (Inl e, w2)
                | (Inr prices, w2) \<Rightarrow>
                    (case price_of prices (the base_id) quote of
                       None \<Rightarrow> (Inr Price_unavailable, w2)
                     | Some p \<Rightarrow>
                         (Inr (Converted (conversion_of amt base quote (amt * p) p)), w2)))
             else
               (case symbol_to_id rem quote w1 of
                  (Inl e, w2) \<Rightarrow> (Inl e, w2)
                | (Inr quote_id, w2) \<Rightarrow>
                    if quote_id = None \<or> quote_id = Some [] then (Inr (Unknown_quote g3), w2)
                    else
                      (case get_prices rem [the base_id, the quote_id] [''usd''] w2 of
                         (Inl e, w3) \<Rightarrow> (Inl e, w3)
                       | (Inr prices, w3) \<Rightarrow>
                           (let p_base = price_of prices (the base_id) ''usd'';
                                p_quote = price_of prices (the quote_id) ''usd''
                            in if falsy p_base \<or> falsy p_quote \<or> p_quote = Some 0
                               then (Inr Price_unavailable, w3)
                               else
                                 (case float_div (the p_base) (the p_quote) of
                                    Inl e \<Rightarrow> (Inl e, w3)
                                  | Inr r \<Rightarrow>
                                      (Inr (Converted (conversion_of amt base quote (amt * r) r)),
                                       w3))))))"

section \<open>Sample remote sources and states\<close>

text \<open>
  Concrete inputs for the examples below: a process that has just started, remote sources
  that answer with a fixed coin list and a fixed price document, one that cannot be
  reached and one that answers 429.
\<close>

definition idle :: world where
  "idle = \<lparr>symbol_cache = [], price_cache = [], now = 0, requests = []\<rparr>"

definition coin_record :: "string \<Rightarrow> string \<Rightarrow> string \<Rightarrow> coin" where
  "coin_record i s n = [''id'' \<mapsto> i, ''symbol'' \<mapsto> s, ''name'' \<mapsto> n]"

definition usd_doc :: "(string \<times> rat) list \<Rightarrow> prices" where
  "usd_doc xs = map_of (map (\<lambda>(i, p). (i, [''usd'' \<mapsto> p])) xs)"

definition serving :: "coin list \<Rightarrow> prices \<Rightarrow> remote" where
  "serving coins ps =
     \<lparr>coins_list = (\<lambda>n. Response 200 [] coins),
      simple_price = (\<lambda>n ids vs. Response 200 [] ps),
      duration = (\<lambda>n. 1)\<rparr>"

definition unreachable :: remote where
  "unreachable =
     \<lparr>coins_list = (\<lambda>n. Transport_failure),
      simple_price = (\<lambda>n ids vs. Transport_failure),
      duration = (\<lambda>n. 12)\<rparr>"

definition rate_limited :: remote where
  "rate_limited =
     \<lparr>coins_list = (\<lambda>n. Response 429 ''Too Many Requests'' []),
      simple_price = (\<lambda>n ids vs. Response 429 ''Too Many Requests'' Map.empty),
      duration = (\<lambda>n. 1)\<rparr>"

definition tethers :: "coin list" where
  "tethers =
     [coin_record ''bridged-usdt'' ''USDT'' ''Bridged USDT'',
      coin_record ''tetris'' ''usdt'' ''Tetris'',
      coin_record ''tether'' ''usdt'' ''Tether'',
      coin_record ''tether-gold'' ''xaut'' ''Tether Gold'']"

section \<open>Facts about the normaliser and the tables\<close>

lemma COMMON_IDS_Nil: "COMMON_IDS [] = None"
  by (simp add: COMMON_IDS_def)

lemma nrm_usd: "nrm ''usd'' = ''usd''"
  by (simp add: nrm_def str_lower_def lower_char_def is_key_char_def)

lemma nrm_eth: "nrm ''eth'' = ''eth''"
  by (simp add: nrm_def str_lower_def lower_char_def is_key_char_def)

lemma nrm_sol: "nrm ''sol'' = ''sol''"
  by (simp add: nrm_def str_lower_def lower_char_def is_key_char_def)


lemma nrm_usdt: "nrm ''usdt'' = ''usdt''"
  by (simp add: nrm_def str_lower_def lower_char_def is_key_char_def)

lemma nrm_upper_BTC: "nrm ''B.T-C'' = ''btc''"
  by code_simp

lemma nrm_upper_USDT: "nrm ''USDT'' = ''usdt''"
  by code_simp

lemma COMMON_IDS_btc: "COMMON_IDS ''btc'' = Some ''bitcoin''"
  by (simp add: COMMON_IDS_def)

lemma COMMON_IDS_eth: "COMMON_IDS ''eth'' = Some ''ethereum''"
  by (simp add: COMMON_IDS_def)

lemma COMMON_IDS_sol: "COMMON_IDS ''sol'' = Some ''solana''"
  by (simp add: COMMON_IDS_def)

lemma COMMON_IDS_usdt: "COMMON_IDS ''usdt'' = None"
  by (simp add: COMMON_IDS_def)

lemma sol_not_fiat: "''sol'' \<notin> FIAT_WHITELIST"
  by (simp add: FIAT_WHITELIST_def)

lemma usd_fiat: "''usd'' \<in> FIAT_WHITELIST"
  by (simp add: FIAT_WHITELIST_def)

section \<open>Facts about the caches\<close>




section \<open>Facts about the remote calls\<close>

lemma fetch_json_failed:
  "failed a \<Longrightarrow>
   fetch_json a d req w = (Inl (raised a), w\<lparr>now := now w + d, requests := requests w @ [req]\<rparr>)"
  by (auto simp add: failed_def raised_def fetch_json_def Let_def split: http.splits)

lemma symbol_to_id_failure:
  assumes "symbol_to_id rem symbol w = (r, w')"
      and "requests w' \<noteq> requests w"
      and "failed (coins_list rem (length (requests w)))"
  shows "r = Inl (raised (coins_list rem (length (requests w)))) \<and>
         symbol_cache w' = symbol_cache w \<and> price_cache w' = price_cache w"
  using assms
  by (auto simp add: symbol_to_id_def Let_def fetch_json_failed
      split: if_splits option.splits prod.splits)

lemma get_prices_failure:
  assumes "get_prices rem ids vs w = (r, w')"
      and "requests w' \<noteq> requests w"
      and "failed (simple_price rem (length (requests w)) (join '','' ids) (join '','' vs))"
  shows "r = Inl (raised (simple_price rem (length (requests w)) (join '','' ids) (join '','' vs))) \<and>
         symbol_cache w' = symbol_cache w \<and> price_cache w' = price_cache w"
  using assms
  by (auto simp add: get_prices_def Let_def fetch_json_failed
      split: if_splits option.splits prod.splits)

section \<open>Facts about symbol resolution\<close>


lemma symbol_to_id_shortcut:
  "COMMON_IDS (nrm s) = Some i \<Longrightarrow> symbol_to_id rem s w = (Inr (Some i), w)"
  by (auto simp add: symbol_to_id_def Let_def COMMON_IDS_Nil)




lemma sort_key_head:
  assumes "xs \<noteq> []"
  shows "\<exists>c rest. sort_key f xs = c # rest \<and> c \<in> set xs \<and> (\<forall>c'\<in>set xs. f c \<le> f c')"
proof -
  have "sort_key f xs \<noteq> []"
    using assms by (metis length_sort length_0_conv)
  then obtain c rest where cr: "sort_key f xs = c # rest"
    by (cases "sort_key f xs") auto
  have "sorted (map f (sort_key f xs))" by (rule sorted_sort_key)
  with cr have le: "\<forall>y\<in>set rest. f c \<le> f y" by simp
  have mem: "set xs = set (c # rest)" using cr by (metis set_sort)
  then have "c \<in> set xs" by simp
  moreover have "\<forall>c'\<in>set xs. f c \<le> f c'" using le mem by auto
  ultimately show ?thesis using cr by blast
qed

lemma choose_id_empty: "matches_of key coins = [] \<Longrightarrow> choose_id key coins = Inr None"
  by (simp add: choose_id_def)

lemma choose_id_picks:
  assumes "matches_of key coins \<noteq> []"
  shows "shortest_name_then_smallest_id (matches_of key coins) (choose_id key coins)"
proof -
  from sort_key_head [OF assms, of sort_key_of]
  obtain c rest where cr: "sort_key sort_key_of (matches_of key coins) = c # rest"
    and mem: "c \<in> set (matches_of key coins)"
    and least: "\<forall>c'\<in>set (matches_of key coins). sort_key_of c \<le> sort_key_of c'"
    by blast
  have res: "choose_id key coins = (case c ''id'' of None \<Rightarrow> Inl KeyError | Some i \<Rightarrow> Inr (Some i))"
    by (simp add: choose_id_def cr)
  from least have
    "\<forall>c'\<in>set (matches_of key coins).
       length (dict_get c ''name'' []) < length (dict_get c' ''name'' []) \<or>
       (length (dict_get c ''name'' []) = length (dict_get c' ''name'' []) \<and>
        dict_get c ''id'' [] \<le> dict_get c' ''id'' [])"
    by (auto simp add: sort_key_of_def less_eq_prod_def)
  with mem res show ?thesis
    unfolding shortest_name_then_smallest_id_def by blast
qed

lemma symbol_to_id_miss:
  assumes "nrm symbol \<noteq> []" and "COMMON_IDS (nrm symbol) = None"
      and "\<not> ttl_contains (symbol_cache w) (nrm symbol) (now w)"
      and "coins_list rem (length (requests w)) = Response 200 body coins"
  shows "fst (symbol_to_id rem symbol w) = choose_id (nrm symbol) coins"
  using assms
  by (simp add: symbol_to_id_def Let_def fetch_json_def split: sum.splits)

section \<open>Facts about the conversion\<close>


lemma handle_message_cross:
  assumes "nrm g3 \<notin> FIAT_WHITELIST"
      and "symbol_to_id rem (nrm g2) w = (Inr (Some bid), w1)" and "bid \<noteq> []"
      and "symbol_to_id rem (nrm g3) w1 = (Inr (Some qid), w2)" and "qid \<noteq> []"
      and "get_prices rem [bid, qid] [''usd''] w2 = (Inr ps, w3)"
  shows "handle_message rem amt g2 g3 w =
     (if falsy (price_of ps bid ''usd'') \<or> falsy (price_of ps qid ''usd'') \<or>
         price_of ps qid ''usd'' = Some 0
      then (Inr Price_unavailable, w3)
      else (case float_div (the (price_of ps bid ''usd'')) (the (price_of ps qid ''usd'')) of
              Inl e \<Rightarrow> (Inl e, w3)
            | Inr r \<Rightarrow> (Inr (Converted (conversion_of amt (nrm g2) (nrm g3) (amt * r) r)), w3)))"
  using assms by (simp add: handle_message_def Let_def)


lemma fetch_json_no_zde: "fetch_json a d req w = (Inl e, w') \<Longrightarrow> e \<noteq> ZeroDivisionError"
  by (auto simp add: fetch_json_def Let_def split: http.splits if_splits)

lemma ttl_getitem_no_zde: "ttl_getitem c k t = (Inl e, c') \<Longrightarrow> e \<noteq> ZeroDivisionError"
  by (auto simp add: ttl_getitem_def split: option.splits if_splits)

lemma choose_id_no_zde: "choose_id key coins = Inl e \<Longrightarrow> e \<noteq> ZeroDivisionError"
  by (auto simp add: choose_id_def split: list.splits option.splits)

lemma symbol_to_id_no_zde: "symbol_to_id rem s w = (Inl e, w') \<Longrightarrow> e \<noteq> ZeroDivisionError"
  by (auto simp add: symbol_to_id_def Let_def
      split: if_splits option.splits prod.splits sum.splits
      dest: fetch_json_no_zde ttl_getitem_no_zde choose_id_no_zde)

lemma get_prices_no_zde: "get_prices rem ids vs w = (Inl e, w') \<Longrightarrow> e \<noteq> ZeroDivisionError"
  by (auto simp add: get_prices_def Let_def
      split: if_splits option.splits prod.splits sum.splits
      dest: fetch_json_no_zde ttl_getitem_no_zde)

lemma handle_message_no_zde: "fst (handle_message rem amt g2 g3 w) \<noteq> Inl ZeroDivisionError"
  by (auto simp add: handle_message_def Let_def falsy_def float_div_def
      split: if_splits option.splits prod.splits sum.splits
      dest: symbol_to_id_no_zde get_prices_no_zde)

section \<open>Facts about the sample inputs\<close>

lemma choose_id_tethers: "choose_id ''usdt'' tethers = Inr (Some ''tether'')"
  by code_simp

lemma symbol_to_id_tethers:
  "symbol_to_id (serving tethers Map.empty) ''USDT'' idle =
     (Inr (Some ''tether''),
      \<lparr>symbol_cache = [(''usdt'', Some ''tether'', 43201)], price_cache = [],
       now = 1, requests = [Coins_list]\<rparr>)"
  by (simp add: symbol_to_id_def nrm_upper_USDT COMMON_IDS_usdt idle_def ttl_contains_def
      serving_def fetch_json_def choose_id_tethers ttl_setitem_def ttl_expire_def)

lemma resolve_eth: "symbol_to_id rem (nrm ''eth'') w = (Inr (Some ''ethereum''), w)"
  by (simp add: symbol_to_id_shortcut nrm_eth COMMON_IDS_eth)

lemma resolve_sol: "symbol_to_id rem (nrm ''sol'') w = (Inr (Some ''solana''), w)"
  by (simp add: symbol_to_id_shortcut nrm_sol COMMON_IDS_sol)


lemma get_prices_serving:
  "get_prices (serving cs ps) ids vs idle = (Inr ps, snd (get_prices (serving cs ps) ids vs idle))"
  by (simp add: get_prices_def idle_def ttl_contains_def serving_def fetch_json_def Let_def)


lemma price_of_usd_doc_snd:
  "i \<noteq> j \<Longrightarrow> price_of (usd_doc ((i, p) # (j, q) # xs)) j ''usd'' = Some q"
  by (simp add: price_of_def dict_get_def usd_doc_def)








lemma nrm_xaut: "nrm ''xaut'' = ''xaut''"
  by (simp add: nrm_def str_lower_def lower_char_def is_key_char_def)

lemma by_symbol_tethers:
  "filter (\<lambda>c. nrm (dict_get c ''symbol'' []) = ''usdt'') tethers =
     [coin_record ''bridged-usdt'' ''USDT'' ''Bridged USDT'',
      coin_record ''tetris'' ''usdt'' ''Tetris'',
      coin_record ''tether'' ''usdt'' ''Tether'']"
  by (simp add: tethers_def coin_record_def dict_get_def nrm_upper_USDT nrm_usdt nrm_xaut)

section \<open>The claims\<close>

subsection \<open>The price cache key\<close>




subsection \<open>The shortcut table\<close>

text \<open>
  Claim C5. For every ticker whose normalised key is in \<open>COMMON_IDS\<close>, \<open>symbol_to_id\<close>
  returns the table's id and leaves the state as it was, whatever the symbol cache holds
  and whatever the remote source would answer: no request is sent, and the cache is
  neither read nor written.
\<close>

theorem shortcut_resolves_locally:
  assumes "COMMON_IDS (nrm ticker) = Some i"
  shows "symbol_to_id rem ticker w = (Inr (Some i), w)"
  using assms by (rule symbol_to_id_shortcut)

text \<open>
  \<open>B.T-C\<close> resolves to \<open>bitcoin\<close> with the remote source unreachable and another id
  cached under \<open>btc\<close>.
\<close>

theorem shortcut_btc_offline:
  "symbol_to_id unreachable ''B.T-C'' (idle\<lparr>symbol_cache := [(''btc'', Some ''wrapped-bitcoin'', 100)]\<rparr>)
     = (Inr (Some ''bitcoin''), idle\<lparr>symbol_cache := [(''btc'', Some ''wrapped-bitcoin'', 100)]\<rparr>)"
  using shortcut_resolves_locally [of "''B.T-C''" "''bitcoin''" unreachable
      "idle\<lparr>symbol_cache := [(''btc'', Some ''wrapped-bitcoin'', 100)]\<rparr>"]
  by (simp add: nrm_upper_BTC COMMON_IDS_btc)

subsection \<open>Rendering\<close>

text \<open>
  Claim C8. With a fiat quote, a value of at least 1 is rendered with two decimals and
  thousands grouping, a value from 0.01 up to 1 with four decimals, and a value below
  0.01 with eight decimals and no grouping. The bound 0.01 is the float that the literal
  denotes.
\<close>

theorem fmt_fiat_boundaries:
  assumes "nrm q \<in> FIAT_WHITELIST"
  shows "(1 \<le> x \<longrightarrow> fmt x q = format_f True 2 x) \<and>
         (float_0_01 \<le> x \<and> x < 1 \<longrightarrow> fmt x q = format_f True 4 x) \<and>
         (x < float_0_01 \<longrightarrow> fmt x q = format_f False 8 x)"
  using assms by (auto simp add: fmt_def Let_def float_0_01_def)

text \<open>
  The examples of the specification, at the doubles that the literals \<open>0.999999\<close> and
  \<open>0.00000001\<close> denote: \<open>0.999999\<close> is below 1, so it takes the four-decimal form,
  where it rounds to \<open>1.0000\<close>.
\<close>

theorem fmt_fiat_examples:
  "fmt 1 ''usd'' = ''1.00'' \<and>
   fmt 130000 ''usd'' = ''130,000.00'' \<and>
   fmt (9007190247541737 / 9007199254740992) ''usd'' = ''1.0000'' \<and>
   fmt (1 / 4) ''usd'' = ''0.2500'' \<and>
   fmt (3022314549036573 / 302231454903657293676544) ''usd'' = ''0.00000001''"
proof -
  have fiat: "nrm ''usd'' \<in> FIAT_WHITELIST"
    by (simp add: nrm_usd usd_fiat)
  have a: "format_f True 2 1 = ''1.00''" by code_simp
  have b: "format_f True 2 130000 = ''130,000.00''" by code_simp
  have c: "format_f True 4 (9007190247541737 / 9007199254740992) = ''1.0000''" by code_simp
  have d: "format_f True 4 (1 / 4) = ''0.2500''" by code_simp
  have e: "format_f False 8 (3022314549036573 / 302231454903657293676544) = ''0.00000001''"
    by code_simp
  from fmt_fiat_boundaries [OF fiat, of 1] a have "fmt 1 ''usd'' = ''1.00''" by simp
  moreover from fmt_fiat_boundaries [OF fiat, of 130000] b
  have "fmt 130000 ''usd'' = ''130,000.00''" by simp
  moreover from fmt_fiat_boundaries [OF fiat, of "9007190247541737 / 9007199254740992"] c
  have "fmt (9007190247541737 / 9007199254740992) ''usd'' = ''1.0000''"
    by (simp add: float_0_01_def)
  moreover from fmt_fiat_boundaries [OF fiat, of "1 / 4"] d
  have "fmt (1 / 4) ''usd'' = ''0.2500''"
    by (simp add: float_0_01_def)
  moreover from fmt_fiat_boundaries [OF fiat, of "3022314549036573 / 302231454903657293676544"] e
  have "fmt (3022314549036573 / 302231454903657293676544) ''usd'' = ''0.00000001''"
    by (simp add: float_0_01_def)
  ultimately show ?thesis by simp
qed



subsection \<open>Remote failures\<close>

text \<open>
  Claim C4. When a symbol resolution or a price fetch sends its request and the remote
  call fails (the transport fails, or the status is not 200), the call raises the error of
  \<open>fetch_json\<close>, and the symbol cache and the price cache are what they were before
  the call.
\<close>

theorem remote_failure_writes_no_cache:
  "(symbol_to_id rem symbol w = (r, w') \<and> requests w' \<noteq> requests w \<and>
    failed (coins_list rem (length (requests w)))
      \<longrightarrow> r = Inl (raised (coins_list rem (length (requests w)))) \<and>
          symbol_cache w' = symbol_cache w \<and> price_cache w' = price_cache w) \<and>
   (get_prices rem ids vs v = (r2, v') \<and> requests v' \<noteq> requests v \<and>
    failed (simple_price rem (length (requests v)) (join '','' ids) (join '','' vs))
      \<longrightarrow> r2 = Inl (raised (simple_price rem (length (requests v)) (join '','' ids) (join '','' vs))) \<and>
          symbol_cache v' = symbol_cache v \<and> price_cache v' = price_cache v)"
  using symbol_to_id_failure [of rem symbol w r w'] get_prices_failure [of rem ids vs v r2 v']
  by blast

text \<open>
  An unreachable source makes the resolution of \<open>usdt\<close> raise, and a source that
  answers 429 makes the price fetch raise; both requests were sent and both caches are
  still empty.
\<close>

theorem remote_failure_usdt:
  "fst (symbol_to_id unreachable ''usdt'' idle) = Inl ClientError \<and>
   symbol_cache (snd (symbol_to_id unreachable ''usdt'' idle)) = [] \<and>
   price_cache (snd (symbol_to_id unreachable ''usdt'' idle)) = [] \<and>
   requests (snd (symbol_to_id unreachable ''usdt'' idle)) = [Coins_list] \<and>
   fst (get_prices rate_limited [''tether''] [''usd''] idle)
     = Inl (RuntimeError 429 ''Too Many Requests'') \<and>
   symbol_cache (snd (get_prices rate_limited [''tether''] [''usd''] idle)) = [] \<and>
   price_cache (snd (get_prices rate_limited [''tether''] [''usd''] idle)) = [] \<and>
   requests (snd (get_prices rate_limited [''tether''] [''usd''] idle))
     = [Simple_price ''tether'' ''usd'']"
proof -
  have s: "requests (snd (symbol_to_id unreachable ''usdt'' idle)) = [Coins_list]"
    by (simp add: symbol_to_id_def nrm_usdt COMMON_IDS_usdt idle_def ttl_contains_def
        unreachable_def fetch_json_def)
  have g: "requests (snd (get_prices rate_limited [''tether''] [''usd''] idle))
             = [Simple_price ''tether'' ''usd'']"
    by (simp add: get_prices_def idle_def ttl_contains_def rate_limited_def fetch_json_def)
  have fs: "failed (coins_list unreachable (length (requests idle)))"
    by (simp add: failed_def unreachable_def)
  have fg: "failed (simple_price rate_limited (length (requests idle))
                      (join '','' [''tether'']) (join '','' [''usd'']))"
    by (simp add: failed_def rate_limited_def)
  from remote_failure_writes_no_cache
    [where rem = unreachable and symbol = "''usdt''" and w = idle
       and r = "fst (symbol_to_id unreachable ''usdt'' idle)"
       and w' = "snd (symbol_to_id unreachable ''usdt'' idle)"] s fs
  have first: "fst (symbol_to_id unreachable ''usdt'' idle) = Inl ClientError \<and>
      symbol_cache (snd (symbol_to_id unreachable ''usdt'' idle)) = [] \<and>
      price_cache (snd (symbol_to_id unreachable ''usdt'' idle)) = []"
    by (simp add: idle_def raised_def unreachable_def)
  from remote_failure_writes_no_cache
    [where rem = rate_limited and ids = "[''tether'']" and vs = "[''usd'']" and v = idle
       and ?r2.0 = "fst (get_prices rate_limited [''tether''] [''usd''] idle)"
       and v' = "snd (get_prices rate_limited [''tether''] [''usd''] idle)"] g fg
  have second: "fst (get_prices rate_limited [''tether''] [''usd''] idle)
        = Inl (RuntimeError 429 ''Too Many Requests'') \<and>
      symbol_cache (snd (get_prices rate_limited [''tether''] [''usd''] idle)) = [] \<and>
      price_cache (snd (get_prices rate_limited [''tether''] [''usd''] idle)) = []"
    by (simp add: idle_def raised_def rate_limited_def)
  from first second s g show ?thesis by simp
qed

subsection \<open>The symbol cache\<close>



subsection \<open>The remote lookup\<close>

text \<open>
  Claim C6. When the resolver goes to the remote source and gets the asset list, it
  selects among the records whose normalised symbol is the key; only when there is none
  does it select among the records whose normalised name is the key; the record selected
  has the shortest name and, among those, the lexicographically smallest id, and the
  result is its \<open>"id"\<close> entry; with no match either way the result is \<open>None\<close>.
\<close>

theorem remote_lookup_selection:
  assumes "nrm symbol \<noteq> []" and "COMMON_IDS (nrm symbol) = None"
      and "\<not> ttl_contains (symbol_cache w) (nrm symbol) (now w)"
      and "coins_list rem (length (requests w)) = Response 200 body coins"
  shows "let by_symbol = filter (\<lambda>c. nrm (dict_get c ''symbol'' []) = nrm symbol) coins;
             by_name = filter (\<lambda>c. nrm (dict_get c ''name'' []) = nrm symbol) coins;
             res = fst (symbol_to_id rem symbol w)
         in (by_symbol \<noteq> [] \<longrightarrow> shortest_name_then_smallest_id by_symbol res) \<and>
            (by_symbol = [] \<and> by_name \<noteq> [] \<longrightarrow> shortest_name_then_smallest_id by_name res) \<and>
            (by_symbol = [] \<and> by_name = [] \<longrightarrow> res = Inr None)"
proof -
  have res: "fst (symbol_to_id rem symbol w) = choose_id (nrm symbol) coins"
    by (rule symbol_to_id_miss [OF assms])
  show ?thesis
    using choose_id_picks [of "nrm symbol" coins] choose_id_empty [of "nrm symbol" coins]
    by (auto simp add: res Let_def matches_of_def)
qed

text \<open>
  Three records carry the symbol \<open>usdt\<close>; \<open>Tetris\<close> and \<open>Tether\<close> tie on the length of
  the name and \<open>tether\<close> is the smaller id.
\<close>

theorem remote_lookup_usdt:
  "shortest_name_then_smallest_id
     [coin_record ''bridged-usdt'' ''USDT'' ''Bridged USDT'',
      coin_record ''tetris'' ''usdt'' ''Tetris'',
      coin_record ''tether'' ''usdt'' ''Tether'']
     (fst (symbol_to_id (serving tethers Map.empty) ''USDT'' idle)) \<and>
   fst (symbol_to_id (serving tethers Map.empty) ''USDT'' idle) = Inr (Some ''tether'')"
proof -
  have h1: "nrm ''USDT'' \<noteq> []" by (simp add: nrm_upper_USDT)
  have h2: "COMMON_IDS (nrm ''USDT'') = None" by (simp add: nrm_upper_USDT COMMON_IDS_usdt)
  have h3: "\<not> ttl_contains (symbol_cache idle) (nrm ''USDT'') (now idle)"
    by (simp add: idle_def ttl_contains_def)
  have h4: "coins_list (serving tethers Map.empty) (length (requests idle)) = Response 200 [] tethers"
    by (simp add: serving_def)
  from remote_lookup_selection [OF h1 h2 h3 h4]
  have "shortest_name_then_smallest_id
     [coin_record ''bridged-usdt'' ''USDT'' ''Bridged USDT'',
      coin_record ''tetris'' ''usdt'' ''Tetris'',
      coin_record ''tether'' ''usdt'' ''Tether'']
     (fst (symbol_to_id (serving tethers Map.empty) ''USDT'' idle))"
    by (simp add: Let_def nrm_upper_USDT by_symbol_tethers)
  then show ?thesis by (simp add: symbol_to_id_tethers)
qed

subsection \<open>The cross-asset branch\<close>




text \<open>
  Claim C2. In the cross-asset branch, a USD price of exactly zero for the quote asset
  makes the conversion end with "Price unavailable"; and no run of \<open>handle_message\<close>
  at all ends in \<open>ZeroDivisionError\<close>: the division is never reached with a zero
  divisor.
\<close>

theorem zero_quote_price_guard:
  assumes "nrm g3 \<notin> FIAT_WHITELIST"
      and "symbol_to_id rem (nrm g2) w = (Inr (Some bid), w1)" and "bid \<noteq> []"
      and "symbol_to_id rem (nrm g3) w1 = (Inr (Some qid), w2)" and "qid \<noteq> []"
      and "get_prices rem [bid, qid] [''usd''] w2 = (Inr ps, w3)"
      and "price_of ps qid ''usd'' = Some 0"
  shows "handle_message rem amt g2 g3 w = (Inr Price_unavailable, w3) \<and>
         (\<forall>rem' amt' a b w'. fst (handle_message rem' amt' a b w') \<noteq> Inl ZeroDivisionError)"
  using assms(7)
  by (simp add: handle_message_cross [OF assms(1-6)] falsy_def handle_message_no_zde)

text \<open>\<open>sol\<close> priced at zero dollars: the reply is "Price unavailable".\<close>

theorem zero_quote_price_guard_eth_sol:
  "\<exists>w3. handle_message (serving [] (usd_doc [(''ethereum'', 3000), (''solana'', 0)]))
           10 ''eth'' ''sol'' idle = (Inr Price_unavailable, w3)"
proof -
  have h1: "nrm ''sol'' \<notin> FIAT_WHITELIST" by (simp add: nrm_sol sol_not_fiat)
  have h7: "price_of (usd_doc [(''ethereum'', 3000), (''solana'', 0)]) ''solana'' ''usd'' = Some 0"
    by (rule price_of_usd_doc_snd) simp
  from zero_quote_price_guard
    [where amt = 10, OF h1 resolve_eth _ resolve_sol _ get_prices_serving h7]
  show ?thesis by auto
qed

subsection \<open>The fiat branch\<close>



end
